theory Spec2Isabelle
  imports Main "HOL-Library.Word"
begin

section \<open>The seed initialiser of \<open>new_calc.py\<close>\<close>

text \<open>
  The module consists of one function, \<open>set_random_seed(seed, deterministic)\<close>. It
  resolves a seed (reading four bytes of OS entropy when none is given), writes it to the
  process environment unless \<open>PYTHONHASHSEED\<close> is already there, seeds the generator of
  the standard \<open>random\<close> module, and then makes two best-effort calls into optional
  libraries, each inside \<open>try: ... except Exception: pass\<close>.

  Scope of the model.
  \<^item> A seed is an instance of Python's \<open>int\<close>: a plain integer of any size, or a
    \<open>bool\<close> (a subclass of \<open>int\<close>). Byte strings are lists of \<open>8 word\<close>; \<open>str\<close>
    values are \<open>string\<close>.
  \<^item> \<open>str(seed)\<close> on line 36 stands outside both guards. It raises \<open>ValueError\<close> for
    an integer of more digits than the interpreter's limit on \<open>int\<close>-to-\<open>str\<close>
    conversion (4300 digits, the default), and the function raises with it.
  \<^item> The other calls outside the guards (\<open>os.urandom\<close>, \<open>int.from_bytes\<close>,
    \<open>os.environ.setdefault\<close>, \<open>random.seed\<close>, \<open>int\<close>) return on the arguments they
    get here (a byte count, four bytes, two strings, an \<open>int\<close>). Resource exhaustion and
    a platform without an entropy device are outside the model.
  \<^item> numpy and torch are not part of the repository. Each is a parameter: absent
    (\<open>None\<close>, what the module-level \<open>try: import ... except Exception\<close> leaves) or a
    module whose every entry point either raises or returns. What a seeding entry point
    installs is a parameter too (a generator state of type \<open>'g\<close>).
  \<^item> An \<open>error\<close> is an exception whose class derives from \<open>Exception\<close>, which is what
    \<open>except Exception\<close> catches. The interpreter-exit signals (\<open>KeyboardInterrupt\<close>,
    \<open>SystemExit\<close>) are outside the model.
\<close>

subsection \<open>Errors and the statement monad\<close>

datatype error =
  ImportError | AttributeError | TypeError | ValueError | RuntimeError | OSError

text \<open>
  A statement runs in a state and either raises or returns; the state it leaves is kept
  in both cases, since what was done before a raise stays done.
\<close>

type_synonym ('s, 'a) py = "'s \<Rightarrow> (error + 'a) \<times> 's"

definition py_return :: "'a \<Rightarrow> ('s, 'a) py" where
  "py_return x s = (Inr x, s)"

definition py_bind :: "('s, 'a) py \<Rightarrow> ('a \<Rightarrow> ('s, 'b) py) \<Rightarrow> ('s, 'b) py" where
  "py_bind m f s = (case m s of (Inl e, s') \<Rightarrow> (Inl e, s') | (Inr x, s') \<Rightarrow> f x s')"

text \<open>\<^verbatim>\<open>try: body
except Exception: pass\<close>\<close>

definition try_except_pass :: "('s, unit) py \<Rightarrow> ('s, unit) py" where
  "try_except_pass body s =
     (case body s of (Inl e, s') \<Rightarrow> (Inr (), s') | (Inr u, s') \<Rightarrow> (Inr (), s'))"

text \<open>A builtin that touches no state, called as a statement.\<close>

definition py_lift :: "error + 'a \<Rightarrow> ('s, 'a) py" where
  "py_lift r s = (r, s)"

subsection \<open>Builtins: \<open>int\<close>, \<open>int.from_bytes\<close> and \<open>str\<close>\<close>

text \<open>
  The values a caller can pass for \<open>seed: Optional[int]\<close>, apart from \<open>None\<close>: a plain
  \<open>int\<close>, or \<open>True\<close> or \<open>False\<close>.
\<close>

datatype py_int = PyInt int | PyBool bool

text \<open>\<open>int(x)\<close>: a plain \<open>int\<close> is returned as it is, \<open>True\<close> is 1 and \<open>False\<close> is 0.\<close>

definition int_py :: "py_int \<Rightarrow> int" where
  "int_py x = (case x of PyInt i \<Rightarrow> i | PyBool b \<Rightarrow> (if b then 1 else 0))"

text \<open>\<open>int.from_bytes(bs, byteorder="little")\<close>, unsigned: the first byte is the lowest.\<close>

fun from_bytes_little :: "8 word list \<Rightarrow> int" where
  "from_bytes_little [] = 0"
| "from_bytes_little (b # bs) = uint b + 256 * from_bytes_little bs"

text \<open>
  The decimal text of an integer: the digits, highest first, after a minus sign for a
  negative number.
\<close>

definition digit_char :: "nat \<Rightarrow> char" where
  "digit_char d = ''0123456789'' ! d"

fun str_nat :: "nat \<Rightarrow> string" where
  "str_nat n = (if n < 10 then [digit_char n] else str_nat (n div 10) @ [digit_char (n mod 10)])"

declare str_nat.simps [simp del]

definition str_int :: "int \<Rightarrow> string" where
  "str_int i = (if i < 0 then CHR ''-'' # str_nat (nat (- i)) else str_nat (nat i))"

text \<open>
  Reading a decimal text back, as \<open>int(text)\<close> does: the check that \<open>str_int\<close> writes
  the number it is given.
\<close>

definition digit_value :: "char \<Rightarrow> nat" where
  "digit_value c = of_char c - 48"

definition int_of_digits :: "string \<Rightarrow> nat" where
  "int_of_digits cs = foldl (\<lambda>n c. 10 * n + digit_value c) 0 cs"

definition int_of_str :: "string \<Rightarrow> int" where
  "int_of_str cs =
     (case cs of
        [] \<Rightarrow> 0
      | c # ds \<Rightarrow> if c = CHR ''-'' then - int (int_of_digits ds) else int (int_of_digits cs))"

text \<open>
  \<open>sys.int_info.default_max_str_digits\<close>: the longest integer, in digits without the
  sign, that the interpreter converts to \<open>str\<close>.
\<close>

definition int_max_str_digits :: nat where
  "int_max_str_digits = 4300"

text \<open>
  \<open>str(x)\<close>: \<open>'True'\<close> or \<open>'False'\<close> for a \<open>bool\<close>; for a plain \<open>int\<close> its decimal
  text, or \<open>ValueError\<close> when it has more digits than the limit.
\<close>

definition str :: "py_int \<Rightarrow> error + string" where
  "str x =
     (case x of
        PyBool b \<Rightarrow> Inr (if b then ''True'' else ''False'')
      | PyInt i \<Rightarrow>
          if int_max_str_digits < length (str_nat (nat \<bar>i\<bar>)) then Inl ValueError
          else Inr (str_int i))"

subsection \<open>The process state and the optional modules\<close>

text \<open>
  The process-wide state the function touches. \<open>entropy\<close> is the stream of bytes the
  OS source will hand out next. The generator states are those of the \<open>random\<close>
  module, of numpy's global \<open>RandomState\<close>, of torch's CPU generator and of torch's
  GPU generators (one per device); the two flags are the attributes of
  \<open>torch.backends.cudnn\<close>.
\<close>

record 'g world =
  environ :: "string \<rightharpoonup> string"
  entropy :: "nat \<Rightarrow> 8 word"
  py_random :: 'g
  np_random_state :: 'g
  torch_cpu_rng :: 'g
  torch_cuda_rngs :: "'g list"
  cudnn_deterministic :: bool
  cudnn_benchmark :: bool

text \<open>
  numpy as the function uses it: \<open>np.random.seed(seed)\<close> raises or installs a state.
  Every entry point of a module gets the seed object itself.
\<close>

record 'g numpy_module =
  np_random_seed :: "py_int \<Rightarrow> error + 'g"

text \<open>
  torch as the function uses it: \<open>torch.manual_seed\<close>, \<open>torch.cuda.is_available\<close>,
  \<open>torch.cuda.manual_seed_all\<close>, and the two attribute stores on
  \<open>torch.backends.cudnn\<close> (\<open>None\<close>: the store goes through; \<open>Some e\<close>: it raises).
\<close>

record 'g torch_module =
  manual_seed :: "py_int \<Rightarrow> error + 'g"
  cuda_is_available :: "error + bool"
  cuda_manual_seed_all :: "py_int \<Rightarrow> error + 'g"
  cudnn_setattr_deterministic :: "bool \<Rightarrow> error option"
  cudnn_setattr_benchmark :: "bool \<Rightarrow> error option"

text \<open>
  The names bound at module level: \<open>random\<close> (always there; \<open>random_seed s\<close> is the
  state \<open>random.seed(s)\<close> installs, which replaces the previous state whole), and
  \<open>np\<close> and \<open>torch\<close>, each a module or \<open>None\<close>.
\<close>

record 'g modules =
  random_seed :: "py_int \<Rightarrow> 'g"
  np :: "'g numpy_module option"
  torch :: "'g torch_module option"

subsection \<open>The statements of \<open>set_random_seed\<close>\<close>

text \<open>\<open>os.urandom(n)\<close>: the next \<open>n\<close> bytes of the entropy source.\<close>

definition os_urandom :: "nat \<Rightarrow> ('g world, 8 word list) py" where
  "os_urandom n w =
     (Inr (map (entropy w) [0..<n]), w\<lparr>entropy := (\<lambda>i. entropy w (i + n))\<rparr>)"

text \<open>
  \<open>os.environ.setdefault(key, value)\<close>: stores \<open>value\<close> only when \<open>key\<close> is missing,
  and returns what is stored under \<open>key\<close> afterwards.
\<close>

definition environ_setdefault :: "string \<Rightarrow> string \<Rightarrow> ('g world, string) py" where
  "environ_setdefault key val w =
     (case environ w key of
        Some v \<Rightarrow> (Inr v, w)
      | None \<Rightarrow> (Inr val, w\<lparr>environ := (environ w)(key \<mapsto> val)\<rparr>))"

text \<open>\<open>random.seed(seed)\<close>\<close>

definition random_seed_call :: "'g modules \<Rightarrow> py_int \<Rightarrow> ('g world, unit) py" where
  "random_seed_call M seed w = (Inr (), w\<lparr>py_random := random_seed M seed\<rparr>)"

text \<open>\<open>np.random.seed(seed)\<close>\<close>

definition np_random_seed_call :: "'g numpy_module \<Rightarrow> py_int \<Rightarrow> ('g world, unit) py" where
  "np_random_seed_call m seed w =
     (case np_random_seed m seed of
        Inl e \<Rightarrow> (Inl e, w)
      | Inr g \<Rightarrow> (Inr (), w\<lparr>np_random_state := g\<rparr>))"

text \<open>\<open>torch.manual_seed(seed)\<close>\<close>

definition torch_manual_seed_call :: "'g torch_module \<Rightarrow> py_int \<Rightarrow> ('g world, unit) py" where
  "torch_manual_seed_call t seed w =
     (case manual_seed t seed of
        Inl e \<Rightarrow> (Inl e, w)
      | Inr g \<Rightarrow> (Inr (), w\<lparr>torch_cpu_rng := g\<rparr>))"

text \<open>\<open>torch.cuda.is_available()\<close>\<close>

definition torch_cuda_is_available_call :: "'g torch_module \<Rightarrow> ('g world, bool) py" where
  "torch_cuda_is_available_call t w =
     (case cuda_is_available t of Inl e \<Rightarrow> (Inl e, w) | Inr b \<Rightarrow> (Inr b, w))"

text \<open>\<open>torch.cuda.manual_seed_all(seed)\<close>: every device gets the same state.\<close>

definition torch_cuda_manual_seed_all_call ::
  "'g torch_module \<Rightarrow> py_int \<Rightarrow> ('g world, unit) py" where
  "torch_cuda_manual_seed_all_call t seed w =
     (case cuda_manual_seed_all t seed of
        Inl e \<Rightarrow> (Inl e, w)
      | Inr g \<Rightarrow> (Inr (), w\<lparr>torch_cuda_rngs := map (\<lambda>d. g) (torch_cuda_rngs w)\<rparr>))"

text \<open>\<open>torch.backends.cudnn.deterministic = v\<close> and \<open>torch.backends.cudnn.benchmark = v\<close>\<close>

definition set_cudnn_deterministic :: "'g torch_module \<Rightarrow> bool \<Rightarrow> ('g world, unit) py" where
  "set_cudnn_deterministic t v w =
     (case cudnn_setattr_deterministic t v of
        Some e \<Rightarrow> (Inl e, w)
      | None \<Rightarrow> (Inr (), w\<lparr>cudnn_deterministic := v\<rparr>))"

definition set_cudnn_benchmark :: "'g torch_module \<Rightarrow> bool \<Rightarrow> ('g world, unit) py" where
  "set_cudnn_benchmark t v w =
     (case cudnn_setattr_benchmark t v of
        Some e \<Rightarrow> (Inl e, w)
      | None \<Rightarrow> (Inr (), w\<lparr>cudnn_benchmark := v\<rparr>))"

subsection \<open>\<open>set_random_seed\<close>\<close>

text \<open>Lines 31 to 33: \<open>if seed is None: seed = int.from_bytes(os.urandom(4), "little")\<close>\<close>

definition resolve_seed :: "py_int option \<Rightarrow> ('g world, py_int) py" where
  "resolve_seed seed =
     (case seed of
        None \<Rightarrow> py_bind (os_urandom 4) (\<lambda>bs. py_return (PyInt (from_bytes_little bs)))
      | Some s \<Rightarrow> py_return s)"

text \<open>Lines 42 to 46: the numpy block.\<close>

definition numpy_block :: "'g modules \<Rightarrow> py_int \<Rightarrow> ('g world, unit) py" where
  "numpy_block M seed =
     (case np M of
        None \<Rightarrow> py_return ()
      | Some m \<Rightarrow> try_except_pass (np_random_seed_call m seed))"

text \<open>Lines 51 to 57: the body of the torch block's \<open>try\<close>.\<close>

definition torch_body :: "'g torch_module \<Rightarrow> py_int \<Rightarrow> bool \<Rightarrow> ('g world, unit) py" where
  "torch_body t seed deterministic =
     py_bind (torch_manual_seed_call t seed) (\<lambda>u.
     py_bind (torch_cuda_is_available_call t) (\<lambda>available.
     py_bind (if available then torch_cuda_manual_seed_all_call t seed else py_return ()) (\<lambda>u.
     if deterministic
     then py_bind (set_cudnn_deterministic t True) (\<lambda>u. set_cudnn_benchmark t False)
     else py_return ())))"

text \<open>Lines 49 to 59: the torch block.\<close>

definition torch_block :: "'g modules \<Rightarrow> py_int \<Rightarrow> bool \<Rightarrow> ('g world, unit) py" where
  "torch_block M seed deterministic =
     (case torch M of
        None \<Rightarrow> py_return ()
      | Some t \<Rightarrow> try_except_pass (torch_body t seed deterministic))"

text \<open>
  The whole function. On line 36 the argument \<open>str(seed)\<close> is evaluated before
  \<open>setdefault\<close> is called, whether or not the variable is set; line 61 returns
  \<open>int(seed)\<close>.
\<close>

definition set_random_seed ::
  "'g modules \<Rightarrow> py_int option \<Rightarrow> bool \<Rightarrow> ('g world, int) py" where
  "set_random_seed M seed deterministic =
     py_bind (resolve_seed seed) (\<lambda>seed.
     py_bind (py_lift (str seed)) (\<lambda>text.
     py_bind (environ_setdefault ''PYTHONHASHSEED'' text) (\<lambda>v.
     py_bind (random_seed_call M seed) (\<lambda>u.
     py_bind (numpy_block M seed) (\<lambda>u.
     py_bind (torch_block M seed deterministic) (\<lambda>u.
     py_return (int_py seed)))))))"

subsection \<open>Drawing from a generator\<close>

text \<open>
  What a generator produces next depends on its state alone: \<open>nxt\<close> is any drawing
  method (\<open>random.random\<close>, \<open>random.randint\<close>, ...), returning the value drawn and the
  state after it. \<open>draws nxt n g\<close> are the first \<open>n\<close> values drawn from state \<open>g\<close>.
\<close>

fun draws :: "('g \<Rightarrow> 'a \<times> 'g) \<Rightarrow> nat \<Rightarrow> 'g \<Rightarrow> 'a list" where
  "draws nxt 0 g = []"
| "draws nxt (Suc n) g = (case nxt g of (x, g') \<Rightarrow> x # draws nxt n g')"

text \<open>
  Stated from the specification, for the comparison with the code: the state of a
  generator freshly seeded with \<open>s\<close> through the standard API, \<open>random.Random(s)\<close>.
\<close>

definition spec_fresh_generator :: "'g modules \<Rightarrow> py_int \<Rightarrow> 'g" where
  "spec_fresh_generator M s = random_seed M s"

subsection \<open>A concrete platform\<close>

text \<open>
  One instance of the parameters, on which the model is evaluated. A generator state is
  the number it was seeded from, and every entry point reads the seed object through
  \<open>int\<close>. \<open>random.seed\<close> takes the absolute value of an \<open>int\<close>; \<open>np.random.seed\<close> accepts 0 to \<open>2^32 - 1\<close> and raises \<open>ValueError\<close>
  otherwise; \<open>torch.manual_seed\<close> and \<open>torch.cuda.manual_seed_all\<close> accept
  \<open>-2^63\<close> to \<open>2^64 - 1\<close>, reduce modulo \<open>2^64\<close> and raise \<open>RuntimeError\<close>
  otherwise; a GPU is available.
\<close>

definition demo_numpy :: "int numpy_module" where
  "demo_numpy =
     \<lparr>np_random_seed = (\<lambda>x. if 0 \<le> int_py x \<and> int_py x < 4294967296
                             then Inr (int_py x) else Inl ValueError)\<rparr>"

definition demo_torch :: "int torch_module" where
  "demo_torch =
     \<lparr>manual_seed = (\<lambda>x. if - 9223372036854775808 \<le> int_py x \<and> int_py x < 18446744073709551616
                           then Inr (int_py x mod 18446744073709551616)
                           else Inl RuntimeError),
      cuda_is_available = Inr True,
      cuda_manual_seed_all = (\<lambda>x. if - 9223372036854775808 \<le> int_py x \<and> int_py x < 18446744073709551616
                           then Inr (int_py x mod 18446744073709551616)
                           else Inl RuntimeError),
      cudnn_setattr_deterministic = (\<lambda>v. None),
      cudnn_setattr_benchmark = (\<lambda>v. None)\<rparr>"

definition demo_modules :: "int modules" where
  "demo_modules = \<lparr>random_seed = (\<lambda>x. \<bar>int_py x\<bar>), np = Some demo_numpy, torch = Some demo_torch\<rparr>"

definition demo_world :: "int world" where
  "demo_world =
     \<lparr>environ = Map.empty, entropy = (\<lambda>i. of_nat (i + 1)),
      py_random = 0, np_random_state = 0, torch_cpu_rng = 0, torch_cuda_rngs = [0, 0],
      cudnn_deterministic = False, cudnn_benchmark = True\<rparr>"

text \<open>Two variants of that torch: the GPU query raises; the GPU seeding raises.\<close>

definition demo_torch_query_raises :: "int torch_module" where
  "demo_torch_query_raises = demo_torch\<lparr>cuda_is_available := Inl RuntimeError\<rparr>"

definition demo_torch_gpu_seeding_raises :: "int torch_module" where
  "demo_torch_gpu_seeding_raises = demo_torch\<lparr>cuda_manual_seed_all := (\<lambda>s. Inl RuntimeError)\<rparr>"

section \<open>Properties\<close>

subsection \<open>The builtins\<close>

lemma from_bytes_little_bounds:
  "0 \<le> from_bytes_little bs \<and> from_bytes_little bs < 256 ^ length bs"
proof (induction bs)
  case Nil
  show ?case by simp
next
  case (Cons b bs)
  have b: "0 \<le> uint b" "uint b < 256"
    using uint_lt2p [of b] by simp_all
  from Cons.IH have "256 * (from_bytes_little bs + 1) \<le> 256 * 256 ^ length bs"
    by (intro mult_left_mono) simp_all
  with b Cons.IH show ?case by simp
qed

text \<open>The decimal text reads back as the number.\<close>

lemma below_ten:
  "d < 10 \<Longrightarrow>
   d = 0 \<or> d = 1 \<or> d = 2 \<or> d = 3 \<or> d = 4 \<or> d = 5 \<or> d = 6 \<or> d = 7 \<or> d = 8 \<or> d = (9::nat)"
  by arith

lemma digit_value_digit_char: "d < 10 \<Longrightarrow> digit_value (digit_char d) = d"
proof -
  assume "d < 10"
  then consider "d = 0" | "d = 1" | "d = 2" | "d = 3" | "d = 4" | "d = 5" | "d = 6"
    | "d = 7" | "d = 8" | "d = 9"
    by (rule below_ten [THEN disjE]) blast+
  then show ?thesis
    by cases (simp_all add: digit_value_def digit_char_def)
qed

lemma digit_char_not_minus: "d < 10 \<Longrightarrow> digit_char d \<noteq> CHR ''-''"
proof -
  assume "d < 10"
  then consider "d = 0" | "d = 1" | "d = 2" | "d = 3" | "d = 4" | "d = 5" | "d = 6"
    | "d = 7" | "d = 8" | "d = 9"
    by (rule below_ten [THEN disjE]) blast+
  then show ?thesis
    by cases (simp_all add: digit_char_def)
qed

lemma int_of_digits_str_nat: "int_of_digits (str_nat n) = n"
proof (induction n rule: str_nat.induct)
  case (1 n)
  show ?case
  proof (cases "n < 10")
    case True
    then show ?thesis
      by (simp add: str_nat.simps [of n] int_of_digits_def digit_value_digit_char)
  next
    case False
    with "1.IH" have "int_of_digits (str_nat (n div 10)) = n div 10"
      by simp
    with False show ?thesis
      by (simp add: str_nat.simps [of n] int_of_digits_def digit_value_digit_char)
  qed
qed

lemma str_nat_first: "\<exists>d ds. d < 10 \<and> str_nat n = digit_char d # ds"
proof (induction n rule: str_nat.induct)
  case (1 n)
  show ?case
  proof (cases "n < 10")
    case True
    then show ?thesis
      by (auto simp: str_nat.simps [of n])
  next
    case False
    with "1.IH" obtain d ds where "d < 10" "str_nat (n div 10) = digit_char d # ds"
      by blast
    with False show ?thesis
      by (auto simp: str_nat.simps [of n])
  qed
qed

lemma int_of_str_str_int: "int_of_str (str_int i) = i"
proof (cases "i < 0")
  case True
  then show ?thesis
    by (simp add: int_of_str_def str_int_def int_of_digits_str_nat)
next
  case False
  obtain d ds where d: "d < 10" "str_nat (nat i) = digit_char d # ds"
    using str_nat_first by blast
  have "int (int_of_digits (str_nat (nat i))) = i"
    using False by (simp add: int_of_digits_str_nat)
  with False d show ?thesis
    by (simp add: int_of_str_def str_int_def digit_char_not_minus)
qed

text \<open>
  The decimal text of \<open>n\<close> has at most \<open>L\<close> digits exactly when \<open>n\<close> is below \<open>10 ^ L\<close>;
  so \<open>str\<close> raises exactly from \<open>10 ^ 4300\<close> on, in either direction.
\<close>

lemma str_nat_length: "0 < L \<Longrightarrow> length (str_nat n) \<le> L \<longleftrightarrow> n < 10 ^ L"
proof (induction n arbitrary: L rule: str_nat.induct)
  case (1 n)
  show ?case
  proof (cases "n < 10")
    case True
    have "(10::nat) ^ 1 \<le> 10 ^ L"
      using "1.prems" by (intro power_increasing) simp_all
    with True have "n < 10 ^ L" by simp
    with True "1.prems" show ?thesis
      by (simp add: str_nat.simps [of n])
  next
    case False
    then have len: "length (str_nat n) = Suc (length (str_nat (n div 10)))"
      by (simp add: str_nat.simps [of n])
    obtain K where L: "L = Suc K"
      using "1.prems" by (cases L) simp_all
    show ?thesis
    proof (cases "K = 0")
      case True
      have "0 < length (str_nat (n div 10))"
        by (simp add: str_nat.simps [of "n div 10"])
      with True L len False show ?thesis by simp
    next
      case K: False
      with "1.IH" [OF False, of K]
      have "length (str_nat (n div 10)) \<le> K \<longleftrightarrow> n div 10 < 10 ^ K"
        by simp
      moreover have "n div 10 < 10 ^ K \<longleftrightarrow> n < 10 ^ K * 10"
        by (rule div_less_iff_less_mult) simp
      ultimately show ?thesis
        using len L by (simp add: mult.commute)
    qed
  qed
qed

lemma str_PyInt:
  "str (PyInt i) =
     (if 10 ^ int_max_str_digits \<le> \<bar>i\<bar> then Inl ValueError else Inr (str_int i))"
proof -
  have "0 < int_max_str_digits"
    by (simp add: int_max_str_digits_def)
  then have "length (str_nat (nat \<bar>i\<bar>)) \<le> int_max_str_digits
      \<longleftrightarrow> nat \<bar>i\<bar> < 10 ^ int_max_str_digits"
    by (rule str_nat_length)
  also have "\<dots> \<longleftrightarrow> \<bar>i\<bar> < 10 ^ int_max_str_digits"
    by (simp add: nat_less_iff)
  finally show ?thesis
    by (simp add: str_def not_le [symmetric])
qed

lemma str_PyBool: "str (PyBool b) = Inr (if b then ''True'' else ''False'')"
  by (simp add: str_def)

lemma below_limit: "\<bar>i\<bar> < 10 ^ 10 \<Longrightarrow> \<bar>i :: int\<bar> < 10 ^ int_max_str_digits"
proof -
  assume "\<bar>i\<bar> < 10 ^ 10"
  moreover have "(10::int) ^ 10 \<le> 10 ^ int_max_str_digits"
    by (intro power_increasing) (simp_all add: int_max_str_digits_def)
  ultimately show ?thesis by (rule less_le_trans)
qed

lemma str_returns:
  "(\<And>i. x = PyInt i \<Longrightarrow> \<bar>i\<bar> < 10 ^ int_max_str_digits) \<Longrightarrow> \<exists>v. str x = Inr v"
  by (cases x) (simp_all add: str_PyInt str_PyBool)

lemma str_at_limit: "str (PyInt (10 ^ int_max_str_digits)) = Inl ValueError"
  and str_at_minus_limit: "str (PyInt (- (10 ^ int_max_str_digits))) = Inl ValueError"
  by (simp_all add: str_PyInt)

text \<open>The equations that evaluate the statements, and those of the concrete platform.\<close>

lemmas model_defs = resolve_seed_def numpy_block_def torch_block_def
  torch_body_def try_except_pass_def py_bind_def py_return_def py_lift_def os_urandom_def
  environ_setdefault_def random_seed_call_def np_random_seed_call_def
  torch_manual_seed_call_def torch_cuda_is_available_call_def
  torch_cuda_manual_seed_all_call_def set_cudnn_deterministic_def set_cudnn_benchmark_def
  int_py_def

lemmas demo_defs = demo_modules_def demo_torch_def demo_numpy_def demo_world_def
  demo_torch_query_raises_def demo_torch_gpu_seeding_raises_def

subsection \<open>The statements one by one\<close>

lemma py_bind_Inr: "fst (m s) = Inr x \<Longrightarrow> py_bind m f s = f x (snd (m s))"
  by (cases "m s") (simp add: py_bind_def)

lemma try_except_pass_fst: "fst (try_except_pass body s) = Inr ()"
  by (simp add: try_except_pass_def split: prod.splits sum.splits)

lemma try_except_pass_snd: "snd (try_except_pass body s) = snd (body s)"
  by (simp add: try_except_pass_def split: prod.splits sum.splits)

lemma resolve_seed_Some: "resolve_seed (Some s) w = (Inr s, w)"
  by (simp add: resolve_seed_def py_return_def)

lemma resolve_seed_None:
  "resolve_seed None w =
     (Inr (PyInt (from_bytes_little (map (entropy w) [0..<4]))),
      w\<lparr>entropy := (\<lambda>i. entropy w (i + 4))\<rparr>)"
  by (simp add: resolve_seed_def py_bind_def os_urandom_def py_return_def)

lemma resolve_seed_returns: "\<exists>r w0. resolve_seed seed w = (Inr r, w0)"
  by (cases seed) (simp_all add: resolve_seed_Some resolve_seed_None)

lemma resolve_seed_frame:
  assumes "resolve_seed seed w = (Inr r, w0)"
  shows "environ w0 = environ w" and "py_random w0 = py_random w"
    and "np_random_state w0 = np_random_state w" and "torch_cpu_rng w0 = torch_cpu_rng w"
    and "torch_cuda_rngs w0 = torch_cuda_rngs w"
    and "cudnn_deterministic w0 = cudnn_deterministic w"
    and "cudnn_benchmark w0 = cudnn_benchmark w"
  using assms by (cases seed; auto simp: resolve_seed_Some resolve_seed_None)+

lemma environ_setdefault_fst: "\<exists>v. fst (environ_setdefault k x w) = Inr v"
  by (simp add: environ_setdefault_def split: option.splits)

lemma environ_setdefault_snd:
  "snd (environ_setdefault k x w) =
     (case environ w k of Some v \<Rightarrow> w | None \<Rightarrow> w\<lparr>environ := (environ w)(k \<mapsto> x)\<rparr>)"
  by (simp add: environ_setdefault_def split: option.splits)

lemma random_seed_call_eq:
  "random_seed_call M r w = (Inr (), w\<lparr>py_random := random_seed M r\<rparr>)"
  by (simp add: random_seed_call_def)

lemma numpy_block_eq:
  "numpy_block M r w =
     (Inr (), case np M of None \<Rightarrow> w
              | Some m \<Rightarrow> (case np_random_seed m r of
                             Inl e \<Rightarrow> w | Inr g \<Rightarrow> w\<lparr>np_random_state := g\<rparr>))"
  by (simp add: numpy_block_def py_return_def try_except_pass_def np_random_seed_call_def
      split: option.splits sum.splits)

lemma torch_block_fst: "fst (torch_block M r d w) = Inr ()"
  by (simp add: torch_block_def py_return_def try_except_pass_fst split: option.splits)

lemma torch_block_absent: "torch M = None \<Longrightarrow> torch_block M r d w = (Inr (), w)"
  by (simp add: torch_block_def py_return_def)

lemma torch_block_present:
  "torch M = Some t \<Longrightarrow> torch_block M r d w = (Inr (), snd (torch_body t r d w))"
  by (simp add: torch_block_def prod_eq_iff try_except_pass_fst try_except_pass_snd)

subsection \<open>The body of the torch block, case by case\<close>

lemma torch_body_manual_seed_raises:
  "manual_seed t r = Inl e \<Longrightarrow> torch_body t r d w = (Inl e, w)"
  by (simp add: torch_body_def py_bind_def torch_manual_seed_call_def)

lemma torch_body_is_available_raises:
  "manual_seed t r = Inr g \<Longrightarrow> cuda_is_available t = Inl e \<Longrightarrow>
   torch_body t r d w = (Inl e, w\<lparr>torch_cpu_rng := g\<rparr>)"
  by (simp add: torch_body_def py_bind_def torch_manual_seed_call_def
      torch_cuda_is_available_call_def)

lemma torch_body_manual_seed_all_raises:
  "manual_seed t r = Inr g \<Longrightarrow> cuda_is_available t = Inr True \<Longrightarrow>
   cuda_manual_seed_all t r = Inl e \<Longrightarrow>
   torch_body t r d w = (Inl e, w\<lparr>torch_cpu_rng := g\<rparr>)"
  by (simp add: torch_body_def py_bind_def torch_manual_seed_call_def
      torch_cuda_is_available_call_def torch_cuda_manual_seed_all_call_def)

lemma torch_body_frame:
  "environ (snd (torch_body t r d w)) = environ w \<and>
   entropy (snd (torch_body t r d w)) = entropy w \<and>
   py_random (snd (torch_body t r d w)) = py_random w \<and>
   np_random_state (snd (torch_body t r d w)) = np_random_state w"
  by (simp add: torch_body_def py_bind_def torch_manual_seed_call_def py_return_def
      torch_cuda_is_available_call_def torch_cuda_manual_seed_all_call_def
      set_cudnn_deterministic_def set_cudnn_benchmark_def
      split: sum.splits option.splits)



lemma torch_body_no_cuda:
  "manual_seed t r = Inr g \<Longrightarrow> cuda_is_available t = Inr False \<Longrightarrow>
   torch_cuda_rngs (snd (torch_body t r d w)) = torch_cuda_rngs w"
  by (simp add: torch_body_def py_bind_def torch_manual_seed_call_def py_return_def
      torch_cuda_is_available_call_def
      set_cudnn_deterministic_def set_cudnn_benchmark_def
      split: sum.splits option.splits)


lemma torch_body_flags_not_requested:
  "cudnn_deterministic (snd (torch_body t r False w)) = cudnn_deterministic w \<and>
   cudnn_benchmark (snd (torch_body t r False w)) = cudnn_benchmark w"
  by (simp add: torch_body_def py_bind_def torch_manual_seed_call_def py_return_def
      torch_cuda_is_available_call_def torch_cuda_manual_seed_all_call_def
      split: sum.splits option.splits)

subsection \<open>The function as a whole\<close>

lemma set_random_seed_eq:
  assumes "resolve_seed seed w = (Inr x, w0)" and "str x = Inr v"
  shows "set_random_seed M seed d w =
    (Inr (int_py x), snd (torch_block M x d (snd (numpy_block M x
       (snd (random_seed_call M x
          (snd (environ_setdefault ''PYTHONHASHSEED'' v w0))))))))"
proof -
  obtain u where u: "fst (environ_setdefault ''PYTHONHASHSEED'' v w0) = Inr u"
    using environ_setdefault_fst by blast
  have l: "fst (py_lift (str x) w0) = Inr v" "snd (py_lift (str x) w0) = w0"
    using assms(2) by (simp_all add: py_lift_def)
  show ?thesis
    unfolding set_random_seed_def using assms(1)
    by (simp add: py_bind_Inr l u random_seed_call_eq numpy_block_eq torch_block_fst
        py_return_def)
qed

text \<open>When \<open>str(seed)\<close> raises, the function raises with it, having changed nothing else.\<close>

lemma set_random_seed_raises:
  assumes "resolve_seed seed w = (Inr x, w0)" and "str x = Inl e"
  shows "set_random_seed M seed d w = (Inl e, w0)"
  unfolding set_random_seed_def using assms
  by (simp add: py_bind_def py_lift_def)

lemma before_torch_frame:
  fixes w0 :: "'g world" and M :: "'g modules" and r :: py_int and k x :: string
  defines "w3 \<equiv> snd (numpy_block M r (snd (random_seed_call M r
                    (snd (environ_setdefault k x w0)))))"
  shows "torch_cpu_rng w3 = torch_cpu_rng w0" and "torch_cuda_rngs w3 = torch_cuda_rngs w0"
    and "cudnn_deterministic w3 = cudnn_deterministic w0"
    and "cudnn_benchmark w3 = cudnn_benchmark w0"
    and "entropy w3 = entropy w0"
    and "py_random w3 = random_seed M r"
    and "environ w3 = (case environ w0 k of Some v \<Rightarrow> environ w0
                       | None \<Rightarrow> (environ w0)(k \<mapsto> x))"
  unfolding w3_def
  by (simp_all add: numpy_block_eq random_seed_call_eq environ_setdefault_snd
      split: option.splits sum.splits)

lemma torch_block_frame:
  "environ (snd (torch_block M r d w)) = environ w \<and>
   entropy (snd (torch_block M r d w)) = entropy w \<and>
   py_random (snd (torch_block M r d w)) = py_random w \<and>
   np_random_state (snd (torch_block M r d w)) = np_random_state w"
  by (cases "torch M") (simp_all add: torch_block_absent torch_block_present torch_body_frame)

lemma set_random_seed_fst:
  "resolve_seed seed w = (Inr x, w0) \<Longrightarrow> str x = Inr v \<Longrightarrow>
   fst (set_random_seed M seed d w) = Inr (int_py x)"
  by (simp add: set_random_seed_eq)

lemma set_random_seed_fst_PyInt:
  "\<bar>s\<bar> < 10 ^ int_max_str_digits \<Longrightarrow> fst (set_random_seed M (Some (PyInt s)) d w) = Inr s"
  using set_random_seed_fst [OF resolve_seed_Some, of "PyInt s" "str_int s" M d w]
  by (simp add: str_PyInt int_py_def)

lemma set_random_seed_environ:
  assumes "resolve_seed seed w = (Inr x, w0)" and "str x = Inr v"
  shows "environ (snd (set_random_seed M seed d w)) =
           (case environ w ''PYTHONHASHSEED'' of
              Some u \<Rightarrow> environ w
            | None \<Rightarrow> (environ w)(''PYTHONHASHSEED'' \<mapsto> v))"
  by (simp only: set_random_seed_eq [OF assms] snd_conv torch_block_frame
      before_torch_frame resolve_seed_frame(1) [OF assms(1)])

lemma set_random_seed_py_random:
  assumes "resolve_seed seed w = (Inr x, w0)" and "str x = Inr v"
  shows "py_random (snd (set_random_seed M seed d w)) = random_seed M x"
  by (simp only: set_random_seed_eq [OF assms] snd_conv torch_block_frame before_torch_frame)

lemma set_random_seed_entropy:
  assumes "resolve_seed seed w = (Inr x, w0)" and "str x = Inr v"
  shows "entropy (snd (set_random_seed M seed d w)) = entropy w0"
  by (simp only: set_random_seed_eq [OF assms] snd_conv torch_block_frame before_torch_frame)



lemma set_random_seed_torch_present:
  assumes "resolve_seed seed w = (Inr x, w0)" and "str x = Inr v" and "torch M = Some t"
  shows "\<exists>w3. snd (set_random_seed M seed d w) = snd (torch_body t x d w3) \<and>
           torch_cpu_rng w3 = torch_cpu_rng w \<and> torch_cuda_rngs w3 = torch_cuda_rngs w \<and>
           cudnn_deterministic w3 = cudnn_deterministic w \<and>
           cudnn_benchmark w3 = cudnn_benchmark w"
proof -
  let ?w3 = "snd (numpy_block M x (snd (random_seed_call M x
               (snd (environ_setdefault ''PYTHONHASHSEED'' v w0)))))"
  have "snd (set_random_seed M seed d w) = snd (torch_body t x d ?w3)"
    by (simp only: set_random_seed_eq [OF assms(1,2)] snd_conv
        torch_block_present [OF assms(3)])
  moreover have "torch_cpu_rng ?w3 = torch_cpu_rng w" "torch_cuda_rngs ?w3 = torch_cuda_rngs w"
    "cudnn_deterministic ?w3 = cudnn_deterministic w" "cudnn_benchmark ?w3 = cudnn_benchmark w"
    by (simp_all only: before_torch_frame resolve_seed_frame [OF assms(1)])
  ultimately show ?thesis by blast
qed




subsection \<open>Seeds that \<open>str\<close> accepts\<close>

lemma below_limit_20: "\<bar>i\<bar> < 10 ^ 20 \<Longrightarrow> \<bar>i :: int\<bar> < 10 ^ int_max_str_digits"
proof -
  assume "\<bar>i\<bar> < 10 ^ 20"
  moreover have "(10::int) ^ 20 \<le> 10 ^ int_max_str_digits"
    by (intro power_increasing) (simp_all add: int_max_str_digits_def)
  ultimately show ?thesis by (rule less_le_trans)
qed

lemma generated_seed_below_limit:
  "\<bar>from_bytes_little (map (entropy w) [0..<4])\<bar> < 10 ^ int_max_str_digits"
proof -
  have "0 \<le> from_bytes_little (map (entropy w) [0..<4])"
    and "from_bytes_little (map (entropy w) [0..<4]) < 256 ^ length (map (entropy w) [0..<4])"
    using from_bytes_little_bounds [of "map (entropy w) [0..<4]"] by blast+
  then have "\<bar>from_bytes_little (map (entropy w) [0..<4])\<bar> < 10 ^ 10"
    by simp
  then show ?thesis by (rule below_limit)
qed

lemma resolve_seed_str:
  assumes "\<And>i. seed = Some (PyInt i) \<Longrightarrow> \<bar>i\<bar> < 10 ^ int_max_str_digits"
  shows "\<exists>x w0 v. resolve_seed seed w = (Inr x, w0) \<and> str x = Inr v"
proof (cases seed)
  case None
  then show ?thesis
    using generated_seed_below_limit [of w] by (simp add: resolve_seed_None str_PyInt)
next
  case (Some x)
  with assms have "\<exists>v. str x = Inr v"
    by (intro str_returns) simp
  with Some show ?thesis
    by (simp add: resolve_seed_Some)
qed

lemma resolve_seed_plain:
  assumes "seed = None \<or> seed = Some (PyInt s)"
  shows "\<exists>i w0. resolve_seed seed w = (Inr (PyInt i), w0) \<and> (seed = Some (PyInt s) \<longrightarrow> i = s)
           \<and> (seed = None \<longrightarrow> 0 \<le> i)"
  using assms from_bytes_little_bounds [of "map (entropy w) [0..<4]"]
  by (auto simp: resolve_seed_None resolve_seed_Some)


lemma set_random_seed_PyBool_eq:
  "set_random_seed M (Some (PyBool b)) d w =
     (Inr (if b then 1 else 0), snd (torch_block M (PyBool b) d (snd (numpy_block M (PyBool b)
        (snd (random_seed_call M (PyBool b)
           (snd (environ_setdefault ''PYTHONHASHSEED'' (if b then ''True'' else ''False'')
                  w))))))))"
  using set_random_seed_eq [OF resolve_seed_Some str_PyBool, of M b d w]
  by (simp add: int_py_def)

lemma set_random_seed_at_limit:
  "set_random_seed M (Some (PyInt (10 ^ int_max_str_digits))) d w = (Inl ValueError, w)"
  and set_random_seed_at_minus_limit:
  "set_random_seed M (Some (PyInt (- (10 ^ int_max_str_digits)))) d w = (Inl ValueError, w)"
  by (rule set_random_seed_raises [OF resolve_seed_Some str_at_limit],
      rule set_random_seed_raises [OF resolve_seed_Some str_at_minus_limit])

section \<open>The claims\<close>

text \<open>
  C1, as the code has it. A call with no seed, with a bool, or with an integer of at
  most 4300 digits returns an integer and raises nothing, for any binding of \<open>np\<close> and
  \<open>torch\<close>, absent or present with entry points that raise wherever they like; each of
  the two guarded blocks returns by itself, whatever was raised inside it.
\<close>

theorem set_random_seed_never_raises:
  assumes "\<And>i. seed = Some (PyInt i) \<Longrightarrow> \<bar>i\<bar> < 10 ^ int_max_str_digits"
  shows "(\<exists>r. fst (set_random_seed M seed deterministic w) = Inr r) \<and>
         fst (numpy_block M x w1) = Inr () \<and>
         fst (torch_block M x deterministic w2) = Inr ()"
proof -
  obtain y w0 v where "resolve_seed seed w = (Inr y, w0)" "str y = Inr v"
    using resolve_seed_str [OF assms] by blast
  then have "fst (set_random_seed M seed deterministic w) = Inr (int_py y)"
    by (rule set_random_seed_fst)
  then show ?thesis
    by (simp add: numpy_block_eq torch_block_fst)
qed

theorem set_random_seed_never_raises_witness:
  "\<bar>42 :: int\<bar> < 10 ^ int_max_str_digits \<and>
   (\<exists>r. fst (set_random_seed demo_modules (Some (PyInt 42)) True demo_world) = Inr r) \<and>
   (\<exists>r. fst (set_random_seed demo_modules None True demo_world) = Inr r) \<and>
   (\<exists>r. fst (set_random_seed demo_modules (Some (PyBool True)) True demo_world) = Inr r) \<and>
   fst (numpy_block demo_modules (PyInt (- 1)) demo_world) = Inr () \<and>
   fst (torch_block demo_modules (PyInt 18446744073709551616) True demo_world) = Inr ()"
proof -
  have small: "\<bar>42 :: int\<bar> < 10 ^ int_max_str_digits"
    by (rule below_limit) simp
  from set_random_seed_never_raises
    [of "Some (PyInt 42)" demo_modules True demo_world "PyInt (- 1)" demo_world demo_world]
  have 1: "(\<exists>r. fst (set_random_seed demo_modules (Some (PyInt 42)) True demo_world) = Inr r) \<and>
     fst (numpy_block demo_modules (PyInt (- 1)) demo_world) = Inr ()"
    using small by simp
  from set_random_seed_never_raises
    [of None demo_modules True demo_world "PyInt 18446744073709551616" demo_world demo_world]
  have 2: "(\<exists>r. fst (set_random_seed demo_modules None True demo_world) = Inr r) \<and>
     fst (torch_block demo_modules (PyInt 18446744073709551616) True demo_world) = Inr ()"
    by simp
  from set_random_seed_never_raises
    [of "Some (PyBool True)" demo_modules True demo_world]
  have 3: "\<exists>r. fst (set_random_seed demo_modules (Some (PyBool True)) True demo_world) = Inr r"
    by simp
  from small 1 2 3 show ?thesis by (simp only: simp_thms)
qed

text \<open>
  The claim C1 as it is written fails: for the seed \<open>10 ^ 4300\<close>, an integer of 4301
  digits, \<open>str(seed)\<close> on line 36 raises \<open>ValueError\<close> outside both guards, and the call
  raises it.
\<close>

theorem set_random_seed_never_raises_counterexample:
  "int_max_str_digits = 4300 \<and>
   fst (set_random_seed demo_modules (Some (PyInt (10 ^ int_max_str_digits))) True demo_world)
     = Inl ValueError"
  by (simp add: set_random_seed_at_limit) (simp add: int_max_str_digits_def)

text \<open>
  C2, as the code has it. Called with an explicit integer seed \<open>s\<close> of at most 4300
  digits, \<open>set_random_seed\<close> returns \<open>s\<close>; a bool comes back as the integer equal to it,
  1 for \<open>True\<close> and 0 for \<open>False\<close>.
\<close>

theorem set_random_seed_returns_given_seed:
  "\<bar>s\<bar> < 10 ^ int_max_str_digits \<Longrightarrow>
   fst (set_random_seed M (Some (PyInt s)) deterministic w) = Inr s \<and>
   fst (set_random_seed M (Some (PyBool b)) deterministic w) = Inr (if b then 1 else 0)"
  by (simp add: set_random_seed_fst_PyInt set_random_seed_PyBool_eq)

theorem set_random_seed_returns_given_seed_witness:
  "\<bar>42 :: int\<bar> < 10 ^ int_max_str_digits \<and>
   fst (set_random_seed demo_modules (Some (PyInt 42)) True demo_world) = Inr 42 \<and>
   fst (set_random_seed demo_modules (Some (PyBool True)) True demo_world) = Inr 1"
proof -
  have small: "\<bar>42 :: int\<bar> < 10 ^ int_max_str_digits"
    by (rule below_limit) simp
  from set_random_seed_returns_given_seed [OF small, of demo_modules True demo_world True]
  show ?thesis using small by simp
qed

text \<open>
  The claim C2 as it is written fails: called with the seed \<open>10 ^ 4300\<close> the function
  raises \<open>ValueError\<close> and returns nothing.
\<close>

theorem set_random_seed_returns_given_seed_counterexample:
  "int_max_str_digits = 4300 \<and>
   fst (set_random_seed demo_modules (Some (PyInt (10 ^ int_max_str_digits))) False demo_world)
     = Inl ValueError \<and>
   fst (set_random_seed demo_modules (Some (PyInt (10 ^ int_max_str_digits))) False demo_world)
     \<noteq> Inr (10 ^ int_max_str_digits)"
  by (simp add: set_random_seed_at_limit) (simp add: int_max_str_digits_def)

text \<open>
  C3. Called without a seed, \<open>set_random_seed\<close> takes exactly the next four bytes of the
  entropy source, returns them read as an unsigned little-endian number (the first byte
  is the lowest), and that number lies between 0 and \<open>2^32 - 1\<close>.
\<close>

theorem set_random_seed_generated_seed:
  "fst (set_random_seed M None deterministic w) =
     Inr (from_bytes_little [entropy w 0, entropy w 1, entropy w 2, entropy w 3]) \<and>
   from_bytes_little [entropy w 0, entropy w 1, entropy w 2, entropy w 3] =
     uint (entropy w 0) + 2 ^ 8 * uint (entropy w 1) + 2 ^ 16 * uint (entropy w 2)
       + 2 ^ 24 * uint (entropy w 3) \<and>
   0 \<le> from_bytes_little [entropy w 0, entropy w 1, entropy w 2, entropy w 3] \<and>
   from_bytes_little [entropy w 0, entropy w 1, entropy w 2, entropy w 3] \<le> 2 ^ 32 - 1 \<and>
   entropy (snd (set_random_seed M None deterministic w)) = (\<lambda>i. entropy w (i + 4))"
proof -
  let ?bs = "[entropy w 0, entropy w 1, entropy w 2, entropy w 3]"
  have bs: "map (entropy w) [0..<4] = ?bs"
    by (simp add: upt_rec numeral_2_eq_2 numeral_3_eq_3)
  have r: "resolve_seed None w =
      (Inr (PyInt (from_bytes_little ?bs)), w\<lparr>entropy := (\<lambda>i. entropy w (i + 4))\<rparr>)"
    using resolve_seed_None [of w] by (simp only: bs)
  have s: "str (PyInt (from_bytes_little ?bs)) = Inr (str_int (from_bytes_little ?bs))"
    using generated_seed_below_limit [of w] by (simp only: bs) (simp add: str_PyInt)
  have "from_bytes_little ?bs < 256 ^ length ?bs" and "0 \<le> from_bytes_little ?bs"
    using from_bytes_little_bounds [of ?bs] by blast+
  then have "from_bytes_little ?bs \<le> 2 ^ 32 - 1" and "0 \<le> from_bytes_little ?bs"
    by simp_all
  moreover have "from_bytes_little ?bs =
      uint (entropy w 0) + 2 ^ 8 * uint (entropy w 1) + 2 ^ 16 * uint (entropy w 2)
        + 2 ^ 24 * uint (entropy w 3)"
    by simp
  ultimately show ?thesis
    using set_random_seed_fst [OF r s, of M deterministic]
      set_random_seed_entropy [OF r s, of M deterministic]
    by (simp add: int_py_def)
qed




text \<open>
  C5. A \<open>PYTHONHASHSEED\<close> that is set before the call keeps its value, whatever the
  seed.
\<close>

theorem set_random_seed_keeps_hash_seed:
  "environ w ''PYTHONHASHSEED'' = Some v \<Longrightarrow>
   environ (snd (set_random_seed M seed deterministic w)) ''PYTHONHASHSEED'' = Some v"
proof -
  assume v: "environ w ''PYTHONHASHSEED'' = Some v"
  obtain x w0 where x: "resolve_seed seed w = (Inr x, w0)"
    using resolve_seed_returns by blast
  have "environ (snd (set_random_seed M seed deterministic w)) = environ w"
  proof (cases "str x")
    case (Inl e)
    then show ?thesis
      by (simp add: set_random_seed_raises [OF x] resolve_seed_frame(1) [OF x])
  next
    case (Inr u)
    then show ?thesis
      by (simp add: set_random_seed_environ [OF x] v)
  qed
  with v show ?thesis by simp
qed

theorem set_random_seed_keeps_hash_seed_witness:
  "environ (demo_world\<lparr>environ := [''PYTHONHASHSEED'' \<mapsto> ''0'']\<rparr>) ''PYTHONHASHSEED''
     = Some ''0'' \<and>
   environ (snd (set_random_seed demo_modules (Some (PyInt 42)) True
     (demo_world\<lparr>environ := [''PYTHONHASHSEED'' \<mapsto> ''0'']\<rparr>))) ''PYTHONHASHSEED''
     = Some ''0''"
  using set_random_seed_keeps_hash_seed
    [of "demo_world\<lparr>environ := [''PYTHONHASHSEED'' \<mapsto> ''0'']\<rparr>" "''0''"
        demo_modules "Some (PyInt 42)" True]
  by simp

text \<open>
  C6, as the code has it. When \<open>PYTHONHASHSEED\<close> is unset before the call and the seed
  is absent or a plain integer of at most 4300 digits, the call returns some \<open>r\<close> and
  leaves the variable set to the decimal text of \<open>r\<close>, which is \<open>str(r)\<close> and reads
  back as \<open>r\<close>.
\<close>

theorem set_random_seed_sets_hash_seed:
  assumes "environ w ''PYTHONHASHSEED'' = None"
    and "seed = None \<or> seed = Some (PyInt s) \<and> \<bar>s\<bar> < 10 ^ int_max_str_digits"
  shows "\<exists>r. fst (set_random_seed M seed deterministic w) = Inr r \<and>
       environ (snd (set_random_seed M seed deterministic w)) ''PYTHONHASHSEED''
         = Some (str_int r) \<and>
       str (PyInt r) = Inr (str_int r) \<and> int_of_str (str_int r) = r"
proof -
  from assms(2) have plain: "seed = None \<or> seed = Some (PyInt s)"
    by blast
  obtain i w0 where i: "resolve_seed seed w = (Inr (PyInt i), w0)"
      "seed = Some (PyInt s) \<longrightarrow> i = s"
    using resolve_seed_plain [OF plain] by blast
  have "\<bar>i\<bar> < 10 ^ int_max_str_digits"
  proof (cases seed)
    case None
    with i(1) show ?thesis
      using generated_seed_below_limit [of w] by (simp add: resolve_seed_None)
  next
    case (Some y)
    with assms(2) i(2) show ?thesis by simp
  qed
  then have v: "str (PyInt i) = Inr (str_int i)"
    by (simp add: str_PyInt)
  have "fst (set_random_seed M seed deterministic w) = Inr i"
    using set_random_seed_fst [OF i(1) v, of M deterministic] by (simp add: int_py_def)
  moreover have "environ (snd (set_random_seed M seed deterministic w)) ''PYTHONHASHSEED''
      = Some (str_int i)"
    by (simp add: set_random_seed_environ [OF i(1) v] assms(1))
  ultimately show ?thesis
    using v int_of_str_str_int [of i] by blast
qed

theorem set_random_seed_sets_hash_seed_witness:
  "environ demo_world ''PYTHONHASHSEED'' = None \<and>
   \<bar>42 :: int\<bar> < 10 ^ int_max_str_digits \<and>
   fst (set_random_seed demo_modules (Some (PyInt 42)) True demo_world) = Inr 42 \<and>
   environ (snd (set_random_seed demo_modules (Some (PyInt 42)) True demo_world))
     ''PYTHONHASHSEED'' = Some ''42'' \<and>
   str (PyInt 42) = Inr ''42''"
proof -
  have unset: "environ demo_world ''PYTHONHASHSEED'' = None"
    by (simp add: demo_world_def)
  have small: "\<bar>42 :: int\<bar> < 10 ^ int_max_str_digits"
    by (rule below_limit) simp
  have s: "str_int 42 = ''42''"
    by (simp add: str_int_def str_nat.simps digit_char_def)
  have given: "fst (set_random_seed demo_modules (Some (PyInt 42)) True demo_world) = Inr 42"
    using small by (rule set_random_seed_fst_PyInt)
  from set_random_seed_sets_hash_seed
    [OF unset disjI2, OF conjI, OF refl small, of demo_modules True]
  obtain r where r: "fst (set_random_seed demo_modules (Some (PyInt 42)) True demo_world)
        = Inr r"
      "environ (snd (set_random_seed demo_modules (Some (PyInt 42)) True demo_world))
         ''PYTHONHASHSEED'' = Some (str_int r)"
      "str (PyInt r) = Inr (str_int r)"
    by blast
  from r(1) given have "r = 42" by simp
  with r(2,3) unset small given show ?thesis
    by (simp only: s simp_thms)
qed

text \<open>
  The claim C6 as it is written fails twice. For the seed \<open>10 ^ 4300\<close> the call raises
  and leaves \<open>PYTHONHASHSEED\<close> unset. For the seed \<open>True\<close> the call returns 1 and the
  variable gets \<open>'True'\<close>, which is not the string form of 1.
\<close>

theorem set_random_seed_sets_hash_seed_counterexample:
  "environ demo_world ''PYTHONHASHSEED'' = None \<and>
   fst (set_random_seed demo_modules (Some (PyInt (10 ^ int_max_str_digits))) True demo_world)
     = Inl ValueError \<and>
   environ (snd (set_random_seed demo_modules (Some (PyInt (10 ^ int_max_str_digits)))
                   True demo_world)) ''PYTHONHASHSEED'' = None \<and>
   fst (set_random_seed demo_modules (Some (PyBool True)) True demo_world) = Inr 1 \<and>
   environ (snd (set_random_seed demo_modules (Some (PyBool True)) True demo_world))
     ''PYTHONHASHSEED'' = Some ''True'' \<and>
   str (PyInt 1) = Inr ''1'' \<and> ''True'' \<noteq> ''1''"
proof -
  have "str (PyInt 1) = Inr ''1''"
    using below_limit [of 1]
    by (simp add: str_PyInt str_int_def str_nat.simps digit_char_def)
  then show ?thesis
    by (simp add: set_random_seed_at_limit set_random_seed_PyBool_eq model_defs demo_defs)
qed

text \<open>
  C7, as the code has it. For a seed \<open>s\<close> that is a bool or an integer of at most 4300
  digits, after \<open>set_random_seed(s)\<close> the generator of the \<open>random\<close> module is in the
  state of a generator freshly seeded with \<open>s\<close>, and so any number of draws, by any
  drawing method, gives the same values from both.
\<close>

theorem set_random_seed_seeds_random:
  assumes "\<And>i. s = PyInt i \<Longrightarrow> \<bar>i\<bar> < 10 ^ int_max_str_digits"
  shows "py_random (snd (set_random_seed M (Some s) deterministic w))
           = spec_fresh_generator M s \<and>
         draws nxt n (py_random (snd (set_random_seed M (Some s) deterministic w)))
           = draws nxt n (spec_fresh_generator M s)"
proof -
  obtain v where "str s = Inr v"
    using str_returns [OF assms] by blast
  then show ?thesis
    by (simp add: set_random_seed_py_random [OF resolve_seed_Some] spec_fresh_generator_def)
qed

theorem set_random_seed_seeds_random_witness:
  "\<bar>- 42 :: int\<bar> < 10 ^ int_max_str_digits \<and>
   py_random (snd (set_random_seed demo_modules (Some (PyInt (- 42))) True demo_world)) = 42 \<and>
   spec_fresh_generator demo_modules (PyInt (- 42)) = 42 \<and>
   py_random (snd (set_random_seed demo_modules (Some (PyBool True)) True demo_world)) = 1 \<and>
   spec_fresh_generator demo_modules (PyBool True) = 1"
proof -
  have small: "\<bar>- 42 :: int\<bar> < 10 ^ int_max_str_digits"
    by (rule below_limit) simp
  have fresh: "spec_fresh_generator demo_modules (PyInt (- 42)) = 42"
    "spec_fresh_generator demo_modules (PyBool True) = 1"
    by (simp_all add: spec_fresh_generator_def demo_modules_def int_py_def)
  from set_random_seed_seeds_random
    [of "PyInt (- 42)" demo_modules True demo_world "\<lambda>g. (g, g)" 0]
  have 1: "py_random (snd (set_random_seed demo_modules (Some (PyInt (- 42))) True demo_world))
      = 42"
    using small by (simp add: fresh)
  from set_random_seed_seeds_random
    [of "PyBool True" demo_modules True demo_world "\<lambda>g. (g, g)" 0]
  have 2: "py_random (snd (set_random_seed demo_modules (Some (PyBool True)) True demo_world))
      = 1"
    by (simp add: fresh)
  from small fresh 1 2 show ?thesis by (simp only: simp_thms)
qed

text \<open>
  The claim C7 as it is written fails: for the seed \<open>10 ^ 4300\<close> the call raises on
  line 36, before \<open>random.seed\<close> on line 39, and the generator keeps the state it had,
  which is not the state a generator freshly seeded with \<open>10 ^ 4300\<close> has.
\<close>

theorem set_random_seed_seeds_random_counterexample:
  "py_random (snd (set_random_seed demo_modules (Some (PyInt (10 ^ int_max_str_digits)))
                     True demo_world)) = 0 \<and>
   spec_fresh_generator demo_modules (PyInt (10 ^ int_max_str_digits))
     = 10 ^ int_max_str_digits \<and>
   (0::int) \<noteq> 10 ^ int_max_str_digits"
  by (simp add: set_random_seed_at_limit spec_fresh_generator_def demo_modules_def
      demo_world_def int_py_def)




text \<open>
  C9, as the code has it. A negative seed of at most 4300 digits is not rejected: the
  call returns normally, and returns the negative seed itself.
\<close>

theorem set_random_seed_negative_seed:
  "s < 0 \<Longrightarrow> - (10 ^ int_max_str_digits) < s \<Longrightarrow>
   fst (set_random_seed M (Some (PyInt s)) deterministic w) = Inr s"
  by (simp add: set_random_seed_fst_PyInt)

theorem set_random_seed_negative_seed_witness:
  "(- 7 :: int) < 0 \<and> - (10 ^ int_max_str_digits) < (- 7 :: int) \<and>
   fst (set_random_seed demo_modules (Some (PyInt (- 7))) True demo_world) = Inr (- 7)"
proof -
  have neg: "(- 7 :: int) < 0" by simp
  have small: "- (10 ^ int_max_str_digits) < (- 7 :: int)"
    using below_limit [of "- 7"] by simp
  from set_random_seed_negative_seed [OF neg small, of demo_modules True demo_world]
  show ?thesis using small by simp
qed

text \<open>
  The claim C9 as it is written fails: for the negative seed \<open>-(10 ^ 4300)\<close>, of 4301
  digits, \<open>str(seed)\<close> on line 36 raises \<open>ValueError\<close> and the call raises it.
\<close>

theorem set_random_seed_negative_seed_counterexample:
  "int_max_str_digits = 4300 \<and> - (10 ^ int_max_str_digits) < (0::int) \<and>
   fst (set_random_seed demo_modules (Some (PyInt (- (10 ^ int_max_str_digits)))) True
          demo_world) = Inl ValueError"
  by (simp add: set_random_seed_at_minus_limit) (simp add: int_max_str_digits_def)

text \<open>
  C10. The torch block has one guard around all of it. When the function has reached
  the block (\<open>str(seed)\<close> on line 36 returned) and \<open>torch.manual_seed\<close>, the GPU query
  or the GPU seeding raises, the function still returns the seed, and the steps after
  the raise are not run: the two cuDNN flags keep the values they had, also when
  \<open>deterministic\<close> is true, and when the raise comes before the GPU seeding the GPU
  generators keep their states.
\<close>

theorem torch_block_single_guard:
  assumes "torch M = Some t" and "resolve_seed seed w = (Inr r, w0)" and "str r = Inr v"
    and "manual_seed t r = Inl e \<or>
         (\<exists>g. manual_seed t r = Inr g \<and> cuda_is_available t = Inl e) \<or>
         (\<exists>g. manual_seed t r = Inr g \<and> cuda_is_available t = Inr True \<and>
              cuda_manual_seed_all t r = Inl e)"
  shows "fst (set_random_seed M seed deterministic w) = Inr (int_py r) \<and>
         cudnn_deterministic (snd (set_random_seed M seed deterministic w))
           = cudnn_deterministic w \<and>
         cudnn_benchmark (snd (set_random_seed M seed deterministic w))
           = cudnn_benchmark w \<and>
         (manual_seed t r = Inl e \<or> cuda_is_available t = Inl e \<longrightarrow>
          torch_cuda_rngs (snd (set_random_seed M seed deterministic w))
            = torch_cuda_rngs w)"
proof -
  obtain w3 where w3: "snd (set_random_seed M seed deterministic w)
        = snd (torch_body t r deterministic w3)"
      "torch_cuda_rngs w3 = torch_cuda_rngs w"
      "cudnn_deterministic w3 = cudnn_deterministic w"
      "cudnn_benchmark w3 = cudnn_benchmark w"
    using set_random_seed_torch_present [OF assms(2,3,1)] by blast
  have ret: "fst (set_random_seed M seed deterministic w) = Inr (int_py r)"
    using assms(2,3) by (rule set_random_seed_fst)
  from assms(4) consider
      (seed) "manual_seed t r = Inl e"
    | (query) g where "manual_seed t r = Inr g" "cuda_is_available t = Inl e"
    | (gpu) g where "manual_seed t r = Inr g" "cuda_is_available t = Inr True"
        "cuda_manual_seed_all t r = Inl e"
    by blast
  then show ?thesis
  proof cases
    case seed
    then have "torch_body t r deterministic w3 = (Inl e, w3)"
      by (rule torch_body_manual_seed_raises)
    with w3 ret show ?thesis by simp
  next
    case query
    then have "torch_body t r deterministic w3 = (Inl e, w3\<lparr>torch_cpu_rng := g\<rparr>)"
      by (rule torch_body_is_available_raises)
    with w3 ret show ?thesis by simp
  next
    case gpu
    then have "torch_body t r deterministic w3 = (Inl e, w3\<lparr>torch_cpu_rng := g\<rparr>)"
      by (rule torch_body_manual_seed_all_raises)
    with w3 ret gpu(1,2) show ?thesis by simp
  qed
qed

theorem torch_block_single_guard_witness:
  "(manual_seed demo_torch (PyInt 18446744073709551616) = Inl RuntimeError \<and>
    str (PyInt 18446744073709551616) = Inr (str_int 18446744073709551616) \<and>
    fst (set_random_seed demo_modules (Some (PyInt 18446744073709551616)) True demo_world)
      = Inr 18446744073709551616 \<and>
    cudnn_deterministic
      (snd (set_random_seed demo_modules (Some (PyInt 18446744073709551616)) True demo_world))
      = False \<and>
    cudnn_benchmark
      (snd (set_random_seed demo_modules (Some (PyInt 18446744073709551616)) True demo_world))
      = True \<and>
    torch_cuda_rngs
      (snd (set_random_seed demo_modules (Some (PyInt 18446744073709551616)) True demo_world))
      = [0, 0]) \<and>
   (manual_seed demo_torch_query_raises (PyInt 42) = Inr 42 \<and>
    cuda_is_available demo_torch_query_raises = Inl RuntimeError \<and>
    str (PyInt 42) = Inr (str_int 42) \<and>
    fst (set_random_seed (demo_modules\<lparr>torch := Some demo_torch_query_raises\<rparr>)
           (Some (PyInt 42)) True demo_world) = Inr 42 \<and>
    cudnn_deterministic
      (snd (set_random_seed (demo_modules\<lparr>torch := Some demo_torch_query_raises\<rparr>)
              (Some (PyInt 42)) True demo_world)) = False \<and>
    torch_cuda_rngs
      (snd (set_random_seed (demo_modules\<lparr>torch := Some demo_torch_query_raises\<rparr>)
              (Some (PyInt 42)) True demo_world)) = [0, 0]) \<and>
   (manual_seed demo_torch_gpu_seeding_raises (PyInt 42) = Inr 42 \<and>
    cuda_is_available demo_torch_gpu_seeding_raises = Inr True \<and>
    cuda_manual_seed_all demo_torch_gpu_seeding_raises (PyInt 42) = Inl RuntimeError \<and>
    fst (set_random_seed (demo_modules\<lparr>torch := Some demo_torch_gpu_seeding_raises\<rparr>)
           (Some (PyInt 42)) True demo_world) = Inr 42 \<and>
    cudnn_deterministic
      (snd (set_random_seed (demo_modules\<lparr>torch := Some demo_torch_gpu_seeding_raises\<rparr>)
              (Some (PyInt 42)) True demo_world)) = False)"
proof -
  have w: "cudnn_deterministic demo_world = False" "cudnn_benchmark demo_world = True"
    "torch_cuda_rngs demo_world = [0, 0]"
    by (simp_all add: demo_world_def)
  have big: "str (PyInt 18446744073709551616) = Inr (str_int 18446744073709551616)"
    using below_limit_20 [of 18446744073709551616] by (simp add: str_PyInt)
  have small: "str (PyInt 42) = Inr (str_int 42)"
    using below_limit [of 42] by (simp add: str_PyInt)
  have first: "manual_seed demo_torch (PyInt 18446744073709551616) = Inl RuntimeError"
    by (simp add: demo_torch_def int_py_def)
  have second: "manual_seed demo_torch_query_raises (PyInt 42) = Inr 42"
    "cuda_is_available demo_torch_query_raises = Inl RuntimeError"
    by (simp_all add: demo_torch_query_raises_def demo_torch_def int_py_def)
  have third: "manual_seed demo_torch_gpu_seeding_raises (PyInt 42) = Inr 42"
    "cuda_is_available demo_torch_gpu_seeding_raises = Inr True"
    "cuda_manual_seed_all demo_torch_gpu_seeding_raises (PyInt 42) = Inl RuntimeError"
    by (simp_all add: demo_torch_gpu_seeding_raises_def demo_torch_def int_py_def)
  have "torch demo_modules = Some demo_torch"
    by (simp add: demo_modules_def)
  from torch_block_single_guard
    [where w = demo_world and e = RuntimeError and deterministic = True,
      OF this resolve_seed_Some big]
  have 1: "fst (set_random_seed demo_modules (Some (PyInt 18446744073709551616)) True
                 demo_world) = Inr 18446744073709551616 \<and>
    cudnn_deterministic
      (snd (set_random_seed demo_modules (Some (PyInt 18446744073709551616)) True demo_world))
      = False \<and>
    cudnn_benchmark
      (snd (set_random_seed demo_modules (Some (PyInt 18446744073709551616)) True demo_world))
      = True \<and>
    torch_cuda_rngs
      (snd (set_random_seed demo_modules (Some (PyInt 18446744073709551616)) True demo_world))
      = [0, 0]"
    by (simp add: first w int_py_def)
  have "torch (demo_modules\<lparr>torch := Some demo_torch_query_raises\<rparr>)
          = Some demo_torch_query_raises"
    by simp
  from torch_block_single_guard
    [where w = demo_world and e = RuntimeError and deterministic = True,
      OF this resolve_seed_Some small]
  have 2: "fst (set_random_seed (demo_modules\<lparr>torch := Some demo_torch_query_raises\<rparr>)
           (Some (PyInt 42)) True demo_world) = Inr 42 \<and>
    cudnn_deterministic
      (snd (set_random_seed (demo_modules\<lparr>torch := Some demo_torch_query_raises\<rparr>)
              (Some (PyInt 42)) True demo_world)) = False \<and>
    torch_cuda_rngs
      (snd (set_random_seed (demo_modules\<lparr>torch := Some demo_torch_query_raises\<rparr>)
              (Some (PyInt 42)) True demo_world)) = [0, 0]"
    by (simp add: second w int_py_def)
  have "torch (demo_modules\<lparr>torch := Some demo_torch_gpu_seeding_raises\<rparr>)
          = Some demo_torch_gpu_seeding_raises"
    by simp
  from torch_block_single_guard
    [where w = demo_world and e = RuntimeError and deterministic = True,
      OF this resolve_seed_Some small]
  have 3: "fst (set_random_seed (demo_modules\<lparr>torch := Some demo_torch_gpu_seeding_raises\<rparr>)
           (Some (PyInt 42)) True demo_world) = Inr 42 \<and>
    cudnn_deterministic
      (snd (set_random_seed (demo_modules\<lparr>torch := Some demo_torch_gpu_seeding_raises\<rparr>)
              (Some (PyInt 42)) True demo_world)) = False"
    by (simp add: third w int_py_def)
  from 1 2 3 first second third big small show ?thesis
    by (simp only: simp_thms)
qed

end
